theory Spec2Isabelle
  imports Complex_Main "HOL-Library.Char_ord" "HOL-Library.List_Lexorder" "HOL-Library.Product_Lexorder"
begin

section \<open>Python values and failures\<close>

text \<open>
  The two scripts \<^verbatim>\<open>lol_basic_parser.py\<close> and \<^verbatim>\<open>val_basic_parser.py\<close> flatten vendor JSON
  into rows. JSON objects with a fixed shape are records, JSON integers are \<^typ>\<open>int\<close>
  (Python integers are unbounded) and every Python exception that the flatteners can
  raise on such input is a value of \<open>error\<close>.
\<close>

datatype error = KeyError | IndexError | ValueError | ZeroDivisionError | OverflowError

text \<open>Sequencing of fallible steps: the first exception ends the computation.\<close>

fun bind_err :: "error + 'a \<Rightarrow> ('a \<Rightarrow> error + 'b) \<Rightarrow> error + 'b" where
  "bind_err (Inl e) f = Inl e"
| "bind_err (Inr x) f = f x"

subsection \<open>Floating point\<close>

text \<open>
  The doubles of the Python runtime are not part of the scripts: they are a parameter,
  a type \<open>'f\<close> with the rounding of a rational to the nearest double, the division of
  two doubles and the test \<^verbatim>\<open>== 0.0\<close>. What the scripts can observe of a division, the
  exception it raises, is modelled in full.
\<close>

record 'f float_ops =
  fl_round :: "rat \<Rightarrow> 'f"
  fl_div :: "'f \<Rightarrow> 'f \<Rightarrow> 'f"
  fl_is_zero :: "'f \<Rightarrow> bool"

text \<open>
  A magnitude rounds (to nearest, ties to even) beyond the largest double
  \<open>2^1024 - 2^971\<close> exactly when it reaches the midpoint \<open>2^1024 - 2^970\<close>.
\<close>

definition too_large_for_float :: "rat \<Rightarrow> bool" where
  "too_large_for_float q = (2 ^ 1024 - 2 ^ 970 \<le> \<bar>q\<bar>)"

text \<open>
  \<^verbatim>\<open>a / b\<close> for two integers: the zero divisor is tested first, then the correctly
  rounded quotient is returned unless it is too large for a double.
\<close>

definition int_truediv :: "'f float_ops \<Rightarrow> int \<Rightarrow> int \<Rightarrow> error + 'f" where
  "int_truediv fo a b =
     (if b = 0 then Inl ZeroDivisionError
      else if too_large_for_float (of_int a / of_int b) then Inl OverflowError
      else Inr (fl_round fo (of_int a / of_int b)))"

text \<open>
  \<^verbatim>\<open>a / x\<close> for an integer \<open>a\<close> and a double \<open>x\<close>: the integer is converted first
  (\<^verbatim>\<open>OverflowError\<close> when it is too large), then a zero divisor raises, and otherwise
  the doubles are divided (an overflow there gives an infinity, not an exception).
\<close>

definition int_div_float :: "'f float_ops \<Rightarrow> int \<Rightarrow> 'f \<Rightarrow> error + 'f" where
  "int_div_float fo a x =
     (if too_large_for_float (of_int a) then Inl OverflowError
      else if fl_is_zero fo x then Inl ZeroDivisionError
      else Inr (fl_div fo (fl_round fo (of_int a)) x))"

subsection \<open>Strings\<close>

text \<open>
  A Python string is a sequence of Unicode code points. Where the scripts index into a
  string or ask for the case of its characters it is a list of code points
  (\<^typ>\<open>nat list\<close>); \<open>codepoints\<close> reads an ASCII literal as such a list. A string that
  is only compared with other strings is a \<^typ>\<open>string\<close>, read as its UTF-8 bytes:
  equality and the lexicographic order of the byte strings are those of the code
  point sequences.
\<close>

definition codepoints :: "string \<Rightarrow> nat list" where
  "codepoints s = map of_char s"

text \<open>\<^verbatim>\<open>s.find(c)\<close> for a one-character needle: the lowest index, or -1.\<close>

fun str_find :: "'a list \<Rightarrow> 'a \<Rightarrow> int" where
  "str_find [] c = - 1"
| "str_find (x # xs) c =
     (if x = c then 0
      else (let r = str_find xs c in if r = - 1 then - 1 else r + 1))"

text \<open>\<^verbatim>\<open>s.split(c)\<close> for a one-character separator: never an empty list.\<close>

fun str_split :: "'a list \<Rightarrow> 'a \<Rightarrow> 'a list list" where
  "str_split [] c = [[]]"
| "str_split (x # xs) c =
     (if x = c then [] # str_split xs c
      else (case str_split xs c of
              [] \<Rightarrow> [[x]]
            | w # ws \<Rightarrow> (x # w) # ws))"

text \<open>
  The case of a code point is read from the Unicode character database of the Python
  runtime, a parameter: the three tests \<^verbatim>\<open>Py_UNICODE_ISLOWER\<close>, \<^verbatim>\<open>Py_UNICODE_ISUPPER\<close>
  and \<^verbatim>\<open>Py_UNICODE_ISTITLE\<close>.
\<close>

record ucd =
  is_lower :: "nat \<Rightarrow> bool"
  is_upper :: "nat \<Rightarrow> bool"
  is_title :: "nat \<Rightarrow> bool"

text \<open>
  \<^verbatim>\<open>s.isupper()\<close>, as CPython computes it: a one-character string is upper-case when
  its character is; the empty string is not; a longer string is upper-case when none
  of its characters is lower-case or title-case and one of them is upper-case.
\<close>

fun str_isupper :: "ucd \<Rightarrow> nat list \<Rightarrow> bool" where
  "str_isupper u [] = False"
| "str_isupper u [c] = is_upper u c"
| "str_isupper u s =
     (\<not> list_ex (\<lambda>c. is_lower u c \<or> is_title u c) s \<and> list_ex (is_upper u) s)"

text \<open>\<^verbatim>\<open>s[i:]\<close> for an index \<open>i \<ge> 0\<close>.\<close>

definition str_from :: "'a list \<Rightarrow> int \<Rightarrow> 'a list" where
  "str_from s i = drop (nat i) s"

text \<open>
  The database on the ASCII range: the upper-case letters are A to Z, the lower-case
  ones a to z, and no character is title-case.
\<close>

definition ascii_case :: "ucd \<Rightarrow> bool" where
  "ascii_case u =
     (\<forall>c < 128. is_upper u c = (65 \<le> c \<and> c \<le> 90)
        \<and> is_lower u c = (97 \<le> c \<and> c \<le> 122)
        \<and> \<not> is_title u c)"

text \<open>The database restricted to the ASCII range, every other code point uncased.\<close>

definition ascii_ucd :: ucd where
  "ascii_ucd =
     \<lparr>is_lower = (\<lambda>c. 97 \<le> c \<and> c \<le> 122),
      is_upper = (\<lambda>c. 65 \<le> c \<and> c \<le> 90),
      is_title = (\<lambda>c. False)\<rparr>"

subsection \<open>Dictionaries\<close>

text \<open>
  \<^verbatim>\<open>d[k]\<close> raises \<^verbatim>\<open>KeyError\<close> on a missing key, and so does the in-place update
  \<^verbatim>\<open>d[k][field] += v\<close>.
\<close>

definition dict_get :: "('k \<rightharpoonup> 'v) \<Rightarrow> 'k \<Rightarrow> error + 'v" where
  "dict_get d k = (case d k of None \<Rightarrow> Inl KeyError | Some v \<Rightarrow> Inr v)"

definition dict_update :: "('k \<rightharpoonup> 'v) \<Rightarrow> 'k \<Rightarrow> ('v \<Rightarrow> 'v) \<Rightarrow> error + ('k \<rightharpoonup> 'v)" where
  "dict_update d k f = (case d k of None \<Rightarrow> Inl KeyError | Some v \<Rightarrow> Inr (d(k \<mapsto> f v)))"

section \<open>The League of Legends flattener\<close>

subsection \<open>Input of the flattener\<close>

text \<open>
  The fields that \<^verbatim>\<open>game_factory\<close> reads, under their JSON names; a prefix tells the
  records apart where two objects share a key (\<open>ev_\<close> timeline event, \<open>p_\<close> participant,
  \<open>t_\<close> team). An event carries the fields of every event type; the code reads
  \<^verbatim>\<open>teamId\<close> of a plate event only, and \<^verbatim>\<open>killerId\<close> and \<^verbatim>\<open>victimId\<close> of a kill event only.
\<close>

record event =
  ev_type :: string
  ev_teamId :: int
  killerId :: int
  victimId :: int

record frame =
  timestamp :: int
  events :: "event list"

record participant =
  p_teamId :: int
  participantId :: int
  riotIdGameName :: "nat list"
  teamPosition :: string
  championName :: string
  p_win :: bool
  p_kills :: int
  p_deaths :: int
  p_assists :: int
  p_firstBloodKill :: bool
  p_firstBloodAssist :: bool
  totalDamageDealtToChampions :: int
  wardsPlaced :: int
  wardsKilled :: int
  visionWardsBoughtInGame :: int
  totalMinionsKilled :: int
  neutralMinionsKilled :: int
  p_goldEarned :: int

record objective =
  first :: bool
  kills :: int

text \<open>The bans are copied into the team row unread.\<close>

typedecl json

record team =
  t_teamId :: int
  t_win :: bool
  champion_obj :: objective
  tower_obj :: objective
  dragon_obj :: objective
  riftHerald_obj :: objective
  baron_obj :: objective
  inhibitor_obj :: objective
  t_bans :: "json list"

record stats_file =
  gameDuration :: int
  participants :: "participant list"
  teams :: "team list"

record series_info =
  si_tournament_id :: string
  si_tournament_name :: string

subsection \<open>Team totals and the timeline scan\<close>

record totals =
  tt_kills :: int
  tt_deaths :: int
  tt_damage_to_champions :: int
  tt_gold_earned :: int
  tt_creep_score :: int
  tt_wards_placed :: int
  tt_wards_killed :: int
  tt_control_wards_purchased :: int
  tt_turret_plates :: int

type_synonym team_totals = "int \<rightharpoonup> totals"

definition zero_totals :: totals where
  "zero_totals = \<lparr>tt_kills = 0, tt_deaths = 0, tt_damage_to_champions = 0, tt_gold_earned = 0,
     tt_creep_score = 0, tt_wards_placed = 0, tt_wards_killed = 0,
     tt_control_wards_purchased = 0, tt_turret_plates = 0\<rparr>"

definition initial_team_totals :: team_totals where
  "initial_team_totals = [100 \<mapsto> zero_totals, 200 \<mapsto> zero_totals]"

record scan_state =
  team_totals :: team_totals
  first_blood_found :: bool
  first_blood_victim :: "int option"

definition initial_scan_state :: scan_state where
  "initial_scan_state =
     \<lparr>team_totals = initial_team_totals, first_blood_found = False, first_blood_victim = None\<rparr>"

text \<open>The body of the loop over the events of a frame; \<^verbatim>\<open>continue\<close> returns the state.\<close>

definition scan_champion_kill :: "event \<Rightarrow> scan_state \<Rightarrow> scan_state" where
  "scan_champion_kill ev st =
     (if ev_type ev = ''CHAMPION_KILL'' then
        (if first_blood_found st then st
         else if killerId ev \<noteq> 0
           then st\<lparr>first_blood_found := True, first_blood_victim := Some (victimId ev)\<rparr>
           else st)
      else st)"

definition add_turret_plate :: "int \<Rightarrow> scan_state \<Rightarrow> error + scan_state" where
  "add_turret_plate team_id st =
     bind_err (dict_update (team_totals st) team_id
                 (\<lambda>t. t\<lparr>tt_turret_plates := tt_turret_plates t + 1\<rparr>))
       (\<lambda>tt. Inr (st\<lparr>team_totals := tt\<rparr>))"

definition scan_event :: "event \<Rightarrow> scan_state \<Rightarrow> error + scan_state" where
  "scan_event ev st =
     (if ev_type ev = ''TURRET_PLATE_DESTROYED'' then
        (if ev_teamId ev = 200 then
           bind_err (add_turret_plate 100 st) (\<lambda>st'. Inr (scan_champion_kill ev st'))
         else if ev_teamId ev = 100 then
           bind_err (add_turret_plate 200 st) (\<lambda>st'. Inr (scan_champion_kill ev st'))
         else Inr st)
      else Inr (scan_champion_kill ev st))"

fun scan_events :: "event list \<Rightarrow> scan_state \<Rightarrow> error + scan_state" where
  "scan_events [] st = Inr st"
| "scan_events (ev # evs) st = bind_err (scan_event ev st) (scan_events evs)"

text \<open>The loop over the frames; \<^verbatim>\<open>break\<close> at the first frame after 850000 ms.\<close>

fun scan_frames :: "frame list \<Rightarrow> scan_state \<Rightarrow> error + scan_state" where
  "scan_frames [] st = Inr st"
| "scan_frames (f # fs) st =
     (if timestamp f > 850000 then Inr st
      else bind_err (scan_events (events f) st) (scan_frames fs))"

text \<open>
  The first loop over the participants. Its eight updates read the same key
  \<^verbatim>\<open>player["teamId"]\<close>, so they fail or succeed together.
\<close>

definition add_participant :: "participant \<Rightarrow> team_totals \<Rightarrow> error + team_totals" where
  "add_participant player tt =
     dict_update tt (p_teamId player)
       (\<lambda>t. t\<lparr>tt_kills := tt_kills t + p_kills player,
              tt_deaths := tt_deaths t + p_deaths player,
              tt_gold_earned := tt_gold_earned t + p_goldEarned player,
              tt_creep_score := tt_creep_score t
                 + (totalMinionsKilled player + neutralMinionsKilled player),
              tt_damage_to_champions := tt_damage_to_champions t
                 + totalDamageDealtToChampions player,
              tt_wards_placed := tt_wards_placed t + wardsPlaced player,
              tt_wards_killed := tt_wards_killed t + wardsKilled player,
              tt_control_wards_purchased := tt_control_wards_purchased t
                 + visionWardsBoughtInGame player\<rparr>)"

fun add_participants :: "participant list \<Rightarrow> team_totals \<Rightarrow> error + team_totals" where
  "add_participants [] tt = Inr tt"
| "add_participants (player # ps) tt = bind_err (add_participant player tt) (add_participants ps)"

subsection \<open>Splitting a team tag off a summoner name\<close>

definition split_team_tag_and_player_nickname :: "ucd \<Rightarrow> nat list \<Rightarrow> nat list option \<times> nat list" where
  "split_team_tag_and_player_nickname u summoner_name =
     (if str_find summoner_name 32 \<noteq> - 1 \<and> str_find summoner_name 32 < 5 then
        (let start_of_summoner_name = hd (str_split summoner_name 32) in
           if str_isupper u start_of_summoner_name
           then (Some start_of_summoner_name,
                 str_from summoner_name (str_find summoner_name 32 + 1))
           else (None, summoner_name))
      else (None, summoner_name))"

subsection \<open>Output rows\<close>

text \<open>
  \<^verbatim>\<open>player_dto\<close> and \<^verbatim>\<open>team_dto\<close>, with the keys of the two dictionary literals
  (prefix \<open>pr_\<close> where a key is also an input field, \<open>tr_\<close> for the team row).
\<close>

record 'f player_dto =
  platform_game_id :: string
  tournament_id :: string
  tournament_name :: string
  summoner_name :: "nat list"
  team_tag :: "nat list option"
  side :: int
  auto_detect_role :: string
  champion :: string
  win :: int
  game_duration :: int
  pr_kills :: int
  pr_deaths :: int
  pr_assists :: int
  kda :: 'f
  kill_participation :: 'f
  team_kills :: int
  team_deaths :: int
  firstBloodKill :: int
  firstBloodAssist :: int
  firstBloodVictim :: int
  damagePerMinute :: 'f
  damageShare :: 'f
  wardsPlacedPerMinute :: 'f
  wardsClearedPerMinute :: 'f
  controlWardsPurchased :: int
  creepScore :: int
  creepScorePerMinute :: 'f
  goldEarned :: int
  goldEarnedPerMinute :: 'f

record 'f team_dto =
  tr_platform_game_id :: string
  tr_tournament_id :: string
  tr_tournament_name :: string
  tr_team_tag :: "nat list option"
  tr_side :: int
  tr_win :: int
  tr_gameDuration :: int
  teamKills :: int
  teamDeaths :: int
  tr_firstBloodKill :: int
  tr_wardsPlacedPerMinute :: 'f
  tr_wardsClearedPerMinute :: 'f
  tr_controlWardsPurchased :: int
  tr_creepScorePerMinute :: 'f
  tr_goldEarnedPerMinute :: 'f
  firstTurret :: int
  turretKills :: int
  turretPlates :: int
  firstDragon :: int
  dragonKills :: int
  firstHerald :: int
  riftHeraldKills :: int
  baronKills :: int
  inhibitorKills :: int
  bans :: "json list"

datatype 'f row = PlayerRow "'f player_dto" | TeamRow "'f team_dto"

fun row_side :: "'f row \<Rightarrow> int" where
  "row_side (PlayerRow r) = side r"
| "row_side (TeamRow r) = tr_side r"

fun row_team_tag :: "'f row \<Rightarrow> nat list option" where
  "row_team_tag (PlayerRow r) = team_tag r"
| "row_team_tag (TeamRow r) = tr_team_tag r"

subsection \<open>The flattener\<close>

text \<open>
  \<^verbatim>\<open>x / (stats_file["gameDuration"]/60)\<close>: the duration in minutes is computed first,
  then the integer \<open>x\<close> is divided by it.
\<close>

definition per_minute :: "'f float_ops \<Rightarrow> int \<Rightarrow> stats_file \<Rightarrow> error + 'f" where
  "per_minute fo x sf =
     bind_err (int_truediv fo (gameDuration sf) 60) (\<lambda>m. int_div_float fo x m)"

text \<open>
  One pass of the second loop over the participants: the dictionary literal is
  evaluated key by key, so the first failing lookup or division decides the exception.
\<close>

definition make_player_dto ::
  "'f float_ops \<Rightarrow> ucd \<Rightarrow> string \<Rightarrow> series_info \<Rightarrow> stats_file \<Rightarrow> team_totals \<Rightarrow> int option
     \<Rightarrow> participant \<Rightarrow> error + 'f player_dto" where
  "make_player_dto fo u game_id si sf tt fbv player =
     (case split_team_tag_and_player_nickname u (riotIdGameName player) of
        (tag, player_name) \<Rightarrow>
     bind_err (int_truediv fo (p_kills player + p_assists player)
                 (if p_deaths player > 0 then p_deaths player else 1)) (\<lambda>v_kda.
     bind_err (dict_get tt (p_teamId player)) (\<lambda>t.
     bind_err (int_truediv fo (p_kills player + p_assists player) (tt_kills t)) (\<lambda>v_kp.
     bind_err (per_minute fo (totalDamageDealtToChampions player) sf) (\<lambda>v_dpm.
     bind_err (int_truediv fo (totalDamageDealtToChampions player)
                 (tt_damage_to_champions t)) (\<lambda>v_share.
     bind_err (per_minute fo (wardsPlaced player) sf) (\<lambda>v_wp.
     bind_err (per_minute fo (wardsKilled player) sf) (\<lambda>v_wk.
     bind_err (per_minute fo (totalMinionsKilled player + neutralMinionsKilled player) sf)
       (\<lambda>v_cs.
     bind_err (per_minute fo (p_goldEarned player) sf) (\<lambda>v_gold.
     Inr \<lparr>platform_game_id = game_id,
          tournament_id = si_tournament_id si,
          tournament_name = si_tournament_name si,
          summoner_name = player_name,
          team_tag = tag,
          side = p_teamId player,
          auto_detect_role = teamPosition player,
          champion = championName player,
          win = of_bool (p_win player),
          game_duration = gameDuration sf,
          pr_kills = p_kills player,
          pr_deaths = p_deaths player,
          pr_assists = p_assists player,
          kda = v_kda,
          kill_participation = v_kp,
          team_kills = tt_kills t,
          team_deaths = tt_deaths t,
          firstBloodKill = of_bool (p_firstBloodKill player),
          firstBloodAssist = of_bool (p_firstBloodAssist player),
          firstBloodVictim = (if Some (participantId player) = fbv then 1 else 0),
          damagePerMinute = v_dpm,
          damageShare = v_share,
          wardsPlacedPerMinute = v_wp,
          wardsClearedPerMinute = v_wk,
          controlWardsPurchased = visionWardsBoughtInGame player,
          creepScore = totalMinionsKilled player + neutralMinionsKilled player,
          creepScorePerMinute = v_cs,
          goldEarned = p_goldEarned player,
          goldEarnedPerMinute = v_gold\<rparr>))))))))))"

fun make_player_rows ::
  "'f float_ops \<Rightarrow> ucd \<Rightarrow> string \<Rightarrow> series_info \<Rightarrow> stats_file \<Rightarrow> team_totals \<Rightarrow> int option
     \<Rightarrow> participant list \<Rightarrow> 'f row list \<Rightarrow> error + 'f row list" where
  "make_player_rows fo u game_id si sf tt fbv [] cleaned_game_data = Inr cleaned_game_data"
| "make_player_rows fo u game_id si sf tt fbv (player # ps) cleaned_game_data =
     bind_err (make_player_dto fo u game_id si sf tt fbv player)
       (\<lambda>dto. make_player_rows fo u game_id si sf tt fbv ps (cleaned_game_data @ [PlayerRow dto]))"

text \<open>
  The inner loop of the team loop: the tag of the first row so far on the team's side
  whose tag is truthy (neither \<^verbatim>\<open>None\<close> nor the empty string).
\<close>

fun find_team_tag :: "int \<Rightarrow> 'f row list \<Rightarrow> nat list option" where
  "find_team_tag team_id [] = None"
| "find_team_tag team_id (r # rs) =
     (if row_side r = team_id \<and> row_team_tag r \<noteq> None \<and> row_team_tag r \<noteq> Some []
      then row_team_tag r
      else find_team_tag team_id rs)"

definition make_team_dto ::
  "'f float_ops \<Rightarrow> string \<Rightarrow> series_info \<Rightarrow> stats_file \<Rightarrow> team_totals \<Rightarrow> 'f row list \<Rightarrow> team
     \<Rightarrow> error + 'f team_dto" where
  "make_team_dto fo game_id si sf tt cleaned_game_data tm =
     bind_err (dict_get tt (t_teamId tm)) (\<lambda>t.
     bind_err (per_minute fo (tt_wards_placed t) sf) (\<lambda>v_wp.
     bind_err (per_minute fo (tt_wards_killed t) sf) (\<lambda>v_wk.
     bind_err (per_minute fo (tt_creep_score t) sf) (\<lambda>v_cs.
     bind_err (per_minute fo (tt_gold_earned t) sf) (\<lambda>v_gold.
     Inr \<lparr>tr_platform_game_id = game_id,
          tr_tournament_id = si_tournament_id si,
          tr_tournament_name = si_tournament_name si,
          tr_team_tag = find_team_tag (t_teamId tm) cleaned_game_data,
          tr_side = t_teamId tm,
          tr_win = of_bool (t_win tm),
          tr_gameDuration = gameDuration sf,
          teamKills = kills (champion_obj tm),
          teamDeaths = tt_deaths t,
          tr_firstBloodKill = of_bool (first (champion_obj tm)),
          tr_wardsPlacedPerMinute = v_wp,
          tr_wardsClearedPerMinute = v_wk,
          tr_controlWardsPurchased = tt_control_wards_purchased t,
          tr_creepScorePerMinute = v_cs,
          tr_goldEarnedPerMinute = v_gold,
          firstTurret = of_bool (first (tower_obj tm)),
          turretKills = kills (tower_obj tm),
          turretPlates = tt_turret_plates t,
          firstDragon = of_bool (first (dragon_obj tm)),
          dragonKills = kills (dragon_obj tm),
          firstHerald = of_bool (first (riftHerald_obj tm)),
          riftHeraldKills = kills (riftHerald_obj tm),
          baronKills = kills (baron_obj tm),
          inhibitorKills = kills (inhibitor_obj tm),
          bans = t_bans tm\<rparr>)))))"

fun make_team_rows ::
  "'f float_ops \<Rightarrow> string \<Rightarrow> series_info \<Rightarrow> stats_file \<Rightarrow> team_totals \<Rightarrow> team list
     \<Rightarrow> 'f row list \<Rightarrow> error + 'f row list" where
  "make_team_rows fo game_id si sf tt [] cleaned_game_data = Inr cleaned_game_data"
| "make_team_rows fo game_id si sf tt (tm # tms) cleaned_game_data =
     bind_err (make_team_dto fo game_id si sf tt cleaned_game_data tm)
       (\<lambda>dto. make_team_rows fo game_id si sf tt tms (cleaned_game_data @ [TeamRow dto]))"

text \<open>
  \<^verbatim>\<open>game_factory\<close> of \<^verbatim>\<open>lol_basic_parser.py\<close>. The arguments \<^verbatim>\<open>live_data\<close> and
  \<^verbatim>\<open>log_to_terminal\<close> do not reach the result (the second only prints).
\<close>

definition lol_game_factory ::
  "'f float_ops \<Rightarrow> ucd \<Rightarrow> string \<Rightarrow> series_info \<Rightarrow> stats_file \<Rightarrow> frame list
     \<Rightarrow> error + 'f row list" where
  "lol_game_factory fo u game_id si sf timeline_frames =
     bind_err (scan_frames timeline_frames initial_scan_state) (\<lambda>st.
     bind_err (add_participants (participants sf) (team_totals st)) (\<lambda>tt.
     bind_err (make_player_rows fo u game_id si sf tt (first_blood_victim st) (participants sf) [])
       (\<lambda>cleaned_game_data.
     make_team_rows fo game_id si sf tt (teams sf) cleaned_game_data)))"

subsection \<open>Notions used to state the properties of the flattener\<close>

text \<open>
  The events that the timeline scan reads: those of the frames before the first frame
  whose timestamp exceeds 850000 ms.
\<close>

definition scanned :: "frame list \<Rightarrow> event list" where
  "scanned fs = concat (map events (takeWhile (\<lambda>f. \<not> timestamp f > 850000) fs))"

text \<open>The number of plate events tagged with a team id.\<close>

definition plate_count :: "int \<Rightarrow> event list \<Rightarrow> int" where
  "plate_count tid evs =
     int (length (filter (\<lambda>ev. ev_type ev = ''TURRET_PLATE_DESTROYED'' \<and> ev_teamId ev = tid) evs))"

text \<open>The first kill event, in list order, whose killer id is not 0.\<close>

definition first_valid_kill :: "event list \<Rightarrow> event option" where
  "first_valid_kill evs = find (\<lambda>ev. ev_type ev = ''CHAMPION_KILL'' \<and> killerId ev \<noteq> 0) evs"

text \<open>The sum of a raw counter over the participants of a side.\<close>

definition side_total :: "(participant \<Rightarrow> int) \<Rightarrow> participant list \<Rightarrow> int \<Rightarrow> int" where
  "side_total f ps tid = sum_list (map f (filter (\<lambda>p. p_teamId p = tid) ps))"

definition totals_plus :: "totals \<Rightarrow> participant list \<Rightarrow> int \<Rightarrow> totals" where
  "totals_plus t ps k =
     t\<lparr>tt_kills := tt_kills t + side_total p_kills ps k,
       tt_deaths := tt_deaths t + side_total p_deaths ps k,
       tt_gold_earned := tt_gold_earned t + side_total p_goldEarned ps k,
       tt_creep_score := tt_creep_score t
          + side_total (\<lambda>p. totalMinionsKilled p + neutralMinionsKilled p) ps k,
       tt_damage_to_champions := tt_damage_to_champions t
          + side_total totalDamageDealtToChampions ps k,
       tt_wards_placed := tt_wards_placed t + side_total wardsPlaced ps k,
       tt_wards_killed := tt_wards_killed t + side_total wardsKilled ps k,
       tt_control_wards_purchased := tt_control_wards_purchased t
          + side_total visionWardsBoughtInGame ps k\<rparr>"

section \<open>The Valorant flattener\<close>

subsection \<open>More string operations\<close>

text \<open>\<^verbatim>\<open>s.find(c, k)\<close> for \<open>k \<ge> 0\<close>: the search starts at index \<open>k\<close>.\<close>

definition str_find_from :: "'a list \<Rightarrow> 'a \<Rightarrow> int \<Rightarrow> int" where
  "str_find_from s c k =
     (let r = str_find (drop (nat k) s) c in if r = - 1 then - 1 else r + k)"

text \<open>\<^verbatim>\<open>s[i:j]\<close>: a negative index counts from the end, and both are clipped.\<close>

definition str_slice :: "'a list \<Rightarrow> int \<Rightarrow> int \<Rightarrow> 'a list" where
  "str_slice s i j =
     (let n = int (length s);
          lo = (if i < 0 then max 0 (n + i) else min i n);
          hi = (if j < 0 then max 0 (n + j) else min j n)
      in if lo < hi then take (nat (hi - lo)) (drop (nat lo) s) else [])"

subsection \<open>Metadata of a game from the end-state file\<close>

record endstate_team =
  et_id :: string
  et_name :: string
  et_won :: bool
  et_score :: int

record endstate_game =
  started :: bool
  finished :: bool
  eg_map_name :: "nat list"
  sequenceNumber :: int
  eg_teams :: "endstate_team list"

text \<open>
  \<^verbatim>\<open>metadata["team_one"]\<close> and \<^verbatim>\<open>metadata["team_two"]\<close> start as empty dictionaries
  (\<open>None\<close>) and receive their four keys together.
\<close>

record team_meta =
  tm_id :: string
  tm_name :: string
  tm_winner :: bool
  tm_rounds_won :: int

record game_metadata =
  gm_map_name :: "nat list"
  gm_game_number :: int
  team_one :: "team_meta option"
  team_two :: "team_meta option"

definition team_meta_of :: "endstate_team \<Rightarrow> team_meta" where
  "team_meta_of tm =
     \<lparr>tm_id = et_id tm, tm_name = et_name tm, tm_winner = et_won tm, tm_rounds_won = et_score tm\<rparr>"

text \<open>The loop over \<^verbatim>\<open>enumerate(teams)\<close>.\<close>

fun metadata_teams :: "nat \<Rightarrow> endstate_team list \<Rightarrow> game_metadata \<Rightarrow> error + game_metadata" where
  "metadata_teams idx [] metadata = Inr metadata"
| "metadata_teams idx (tm # tms) metadata =
     (if idx = 0 then metadata_teams (idx + 1) tms (metadata\<lparr>team_one := Some (team_meta_of tm)\<rparr>)
      else if idx = 1 then
        metadata_teams (idx + 1) tms (metadata\<lparr>team_two := Some (team_meta_of tm)\<rparr>)
      else Inl IndexError)"

text \<open>
  \<^verbatim>\<open>game_metadata_factory\<close>; \<^verbatim>\<open>str.capitalize\<close> of the runtime is the parameter
  \<open>capitalize\<close>.
\<close>

definition game_metadata_factory ::
  "(nat list \<Rightarrow> nat list) \<Rightarrow> endstate_game \<Rightarrow> error + game_metadata" where
  "game_metadata_factory capitalize g =
     (if \<not> started g then Inl ValueError
      else if \<not> finished g then Inl ValueError
      else metadata_teams 0 (eg_teams g)
             \<lparr>gm_map_name = capitalize (eg_map_name g), gm_game_number = sequenceNumber g,
              team_one = None, team_two = None\<rparr>)"

subsection \<open>Input of the Valorant flattener\<close>

record match_info =
  matchId :: string
  mapId :: string
  gameStartMillis :: int
  gameVersion :: "nat list"

record raw_team =
  rt_teamId :: string
  rt_roundsWon :: int

record damage_entry =
  damage :: int
  headshots :: int
  bodyshots :: int
  legshots :: int

record kill_event =
  timeSinceRoundStartMillis :: int
  killer :: string
  victim :: string

record round_player =
  rp_puuid :: string
  rp_damage :: "damage_entry list"
  rp_kills :: "kill_event list"

record round_result =
  winningTeam :: string
  playerStats :: "round_player list"

record player_stats =
  roundsPlayed :: int
  ps_kills :: int
  ps_deaths :: int
  ps_assists :: int
  ps_score :: int

record raw_player =
  puuid :: string
  pl_teamId :: string
  gameName :: string
  characterId :: string
  pl_stats :: player_stats

record raw_game_data =
  matchInfo :: match_info
  rg_teams :: "raw_team list"
  roundResults :: "round_result list"
  players :: "raw_player list"

record series_metadata =
  sm_series_id :: string
  sm_tournament_id :: string
  sm_tournament_name :: string
  sm_games :: "game_metadata list"

text \<open>
  \<^verbatim>\<open>val_metadata\<close>: the display names of the maps (by map id, a string compared with
  the metadata's capitalised map name) and of the agents.
\<close>

record val_metadata =
  vm_maps :: "string \<rightharpoonup> nat list"
  vm_agents :: "string \<rightharpoonup> string"

text \<open>
  What the flattener uses of the runtime besides the division: \<^verbatim>\<open>float\<close> of a string,
  \<^verbatim>\<open>datetime.fromtimestamp\<close> and \<^verbatim>\<open>round\<close> with a number of digits.
\<close>

record ('f, 't) runtime =
  rt_float :: "nat list \<Rightarrow> error + 'f"
  rt_fromtimestamp :: "'f \<Rightarrow> error + 't"
  rt_round :: "'f \<Rightarrow> int \<Rightarrow> 'f"

subsection \<open>Matching the teams to the metadata\<close>

datatype team_ref = TeamOne | TeamTwo

text \<open>\<^verbatim>\<open>this_game_metadata[ref][...]\<close>: the dictionary of the team, if it was filled.\<close>

definition meta_of_ref :: "game_metadata \<Rightarrow> team_ref \<Rightarrow> error + team_meta" where
  "meta_of_ref md r =
     (case (case r of TeamOne \<Rightarrow> team_one md | TeamTwo \<Rightarrow> team_two md) of
        None \<Rightarrow> Inl KeyError
      | Some t \<Rightarrow> Inr t)"

text \<open>
  \<^verbatim>\<open>team_side_refs\<close> maps a side to \<^verbatim>\<open>None\<close>, \<^verbatim>\<open>"team_one"\<close> or \<^verbatim>\<open>"team_two"\<close>.
\<close>

type_synonym team_side_refs = "string \<rightharpoonup> team_ref option"

definition initial_team_side_refs :: team_side_refs where
  "initial_team_side_refs = [''Blue'' \<mapsto> None, ''Red'' \<mapsto> None]"

definition map_team :: "game_metadata \<Rightarrow> raw_team \<Rightarrow> team_side_refs \<Rightarrow> error + team_side_refs" where
  "map_team md tm refs =
     bind_err (meta_of_ref md TeamOne) (\<lambda>one.
       if rt_roundsWon tm = tm_rounds_won one then Inr (refs(rt_teamId tm \<mapsto> Some TeamOne))
       else bind_err (meta_of_ref md TeamTwo) (\<lambda>two.
         if rt_roundsWon tm = tm_rounds_won two then Inr (refs(rt_teamId tm \<mapsto> Some TeamTwo))
         else Inl ValueError))"

fun map_teams :: "game_metadata \<Rightarrow> raw_team list \<Rightarrow> team_side_refs \<Rightarrow> error + team_side_refs" where
  "map_teams md [] refs = Inr refs"
| "map_teams md (tm # tms) refs = bind_err (map_team md tm refs) (map_teams md tms)"

text \<open>\<^verbatim>\<open>this_game_metadata[team_side_refs[side]]\<close>.\<close>

definition side_meta :: "game_metadata \<Rightarrow> team_side_refs \<Rightarrow> string \<Rightarrow> error + team_meta" where
  "side_meta md refs s =
     (case refs s of
        None \<Rightarrow> Inl KeyError
      | Some None \<Rightarrow> Inl KeyError
      | Some (Some r) \<Rightarrow> meta_of_ref md r)"

subsection \<open>The round loop\<close>

record team_agg =
  attackWins :: int
  attackLosses :: int
  defenseWins :: int
  defenseLosses :: int

text \<open>\<^verbatim>\<open>team_preaggregated_stats\<close>, a dictionary with the two keys "Blue" and "Red".\<close>

record team_preagg =
  blue :: team_agg
  red :: team_agg

definition zero_team_agg :: team_agg where
  "zero_team_agg = \<lparr>attackWins = 0, attackLosses = 0, defenseWins = 0, defenseLosses = 0\<rparr>"

definition team_agg_of :: "team_preagg \<Rightarrow> string \<Rightarrow> error + team_agg" where
  "team_agg_of tp s =
     (if s = ''Blue'' then Inr (blue tp) else if s = ''Red'' then Inr (red tp) else Inl KeyError)"

record player_agg =
  total_damage :: int
  pa_headshots :: int
  pa_bodyshots :: int
  pa_legshots :: int
  first_kills :: int
  first_deaths :: int

definition zero_player_agg :: player_agg where
  "zero_player_agg = \<lparr>total_damage = 0, pa_headshots = 0, pa_bodyshots = 0, pa_legshots = 0,
     first_kills = 0, first_deaths = 0\<rparr>"

type_synonym player_preagg = "string \<rightharpoonup> player_agg"

record round_state =
  team_preaggregated_stats :: team_preagg
  player_preaggregated_stats :: player_preagg

definition initial_round_state :: round_state where
  "initial_round_state =
     \<lparr>team_preaggregated_stats = \<lparr>blue = zero_team_agg, red = zero_team_agg\<rparr>,
      player_preaggregated_stats = Map.empty\<rparr>"

subsection \<open>Which side attacks in a round\<close>

text \<open>
  The round loop of \<^verbatim>\<open>game_factory\<close> computes the attacking side from
  \<^verbatim>\<open>round_number = idx + 1\<close> alone.
\<close>

definition attackers :: "nat \<Rightarrow> string" where
  "attackers round_number =
     (if round_number < 25 then (if round_number < 13 then ''Red'' else ''Blue'')
      else (if round_number mod 2 = 1 then ''Red'' else ''Blue''))"

subsection \<open>One round\<close>

text \<open>The win and loss counters of the two sides for one round.\<close>

definition count_round :: "string \<Rightarrow> string \<Rightarrow> team_preagg \<Rightarrow> team_preagg" where
  "count_round att winner tp =
     (if att = ''Blue'' then
        (if winner = ''Blue''
         then tp\<lparr>blue := (blue tp)\<lparr>attackWins := attackWins (blue tp) + 1\<rparr>,
                 red := (red tp)\<lparr>defenseLosses := defenseLosses (red tp) + 1\<rparr>\<rparr>
         else tp\<lparr>blue := (blue tp)\<lparr>attackLosses := attackLosses (blue tp) + 1\<rparr>,
                 red := (red tp)\<lparr>defenseWins := defenseWins (red tp) + 1\<rparr>\<rparr>)
      else if att = ''Red'' then
        (if winner = ''Red''
         then tp\<lparr>red := (red tp)\<lparr>attackWins := attackWins (red tp) + 1\<rparr>,
                 blue := (blue tp)\<lparr>defenseLosses := defenseLosses (blue tp) + 1\<rparr>\<rparr>
         else tp\<lparr>red := (red tp)\<lparr>attackLosses := attackLosses (red tp) + 1\<rparr>,
                 blue := (blue tp)\<lparr>defenseWins := defenseWins (blue tp) + 1\<rparr>\<rparr>)
      else tp)"

definition add_damage :: "player_agg \<Rightarrow> damage_entry \<Rightarrow> player_agg" where
  "add_damage s target =
     s\<lparr>total_damage := total_damage s + damage target,
       pa_headshots := pa_headshots s + headshots target,
       pa_bodyshots := pa_bodyshots s + bodyshots target,
       pa_legshots := pa_legshots s + legshots target\<rparr>"

text \<open>
  One pass of the loop over \<^verbatim>\<open>round_data["playerStats"]\<close>: a player met for the first
  time gets zero counters, the damage entries are added, and the kills are appended
  to \<^verbatim>\<open>round_kill_events\<close>.
\<close>

definition round_player_step ::
  "player_preagg \<times> kill_event list \<Rightarrow> round_player \<Rightarrow> player_preagg \<times> kill_event list" where
  "round_player_step acc player =
     (case acc of (stats, round_kill_events) \<Rightarrow>
        (stats(rp_puuid player \<mapsto>
           foldl add_damage
             (case stats (rp_puuid player) of None \<Rightarrow> zero_player_agg | Some s \<Rightarrow> s)
             (rp_damage player)),
         round_kill_events @ rp_kills player))"

text \<open>
  The two statements after the sort: \<^verbatim>\<open>sorted_kills[0]\<close> raises \<^verbatim>\<open>IndexError\<close> on an
  empty list, and the two counters are looked up by the killer's and the victim's id.
\<close>

definition credit_first_kill :: "kill_event list \<Rightarrow> player_preagg \<Rightarrow> error + player_preagg" where
  "credit_first_kill sorted_kills stats =
     (case sorted_kills of
        [] \<Rightarrow> Inl IndexError
      | k # _ \<Rightarrow>
          bind_err (dict_update stats (killer k) (\<lambda>s. s\<lparr>first_kills := first_kills s + 1\<rparr>))
            (\<lambda>stats1.
          dict_update stats1 (victim k) (\<lambda>s. s\<lparr>first_deaths := first_deaths s + 1\<rparr>)))"

text \<open>
  The body of the loop over \<^verbatim>\<open>enumerate(roundResults)\<close>; \<^verbatim>\<open>sorted\<close> is a stable sort,
  as \<open>sort_key\<close> is.
\<close>

definition process_round :: "nat \<Rightarrow> round_result \<Rightarrow> round_state \<Rightarrow> error + round_state" where
  "process_round idx round_data st =
     (case foldl round_player_step (player_preaggregated_stats st, []) (playerStats round_data) of
        (stats, round_kill_events) \<Rightarrow>
          bind_err (credit_first_kill (sort_key timeSinceRoundStartMillis round_kill_events) stats)
            (\<lambda>stats'.
          Inr \<lparr>team_preaggregated_stats =
                 count_round (attackers (idx + 1)) (winningTeam round_data)
                   (team_preaggregated_stats st),
               player_preaggregated_stats = stats'\<rparr>))"

fun process_rounds :: "nat \<Rightarrow> round_result list \<Rightarrow> round_state \<Rightarrow> error + round_state" where
  "process_rounds idx [] st = Inr st"
| "process_rounds idx (round_data # rs) st =
     bind_err (process_round idx round_data st) (process_rounds (idx + 1) rs)"

subsection \<open>Rows of the Valorant flattener\<close>

text \<open>
  A player row and a team row have the same keys; a team row holds the empty string
  under the keys of a player's own figures, which is \<open>None\<close> here (and the empty string
  for the three text fields).
\<close>

record ('f, 't) val_row =
  vr_game_id :: string
  vr_series_id :: string
  vr_tournament_id :: string
  vr_tournament_name :: string
  vr_map_id :: string
  vr_map_name :: "nat list"
  vr_game_start :: 't
  vr_game_version :: 'f
  vr_game_number :: int
  vr_player_name :: string
  vr_team_id :: string
  vr_team_name :: string
  vr_agent_id :: string
  vr_agent_name :: string
  vr_win :: int
  vr_roundsWon :: int
  vr_roundsLost :: int
  vr_attackRoundsWon :: int
  vr_attackRoundsLost :: int
  vr_defenseRoundsWon :: int
  vr_defenseRoundsLost :: int
  vr_kills :: "int option"
  vr_deaths :: "int option"
  vr_assists :: "int option"
  vr_averageCombatScore :: "'f option"
  vr_damagePerRound :: "'f option"
  vr_first_kills :: "int option"
  vr_first_deaths :: "int option"
  vr_headshot_rate :: "'f option"

text \<open>What the preamble of \<^verbatim>\<open>game_factory\<close> computes once for all rows.\<close>

record ('f, 't) game_header =
  gh_game_id :: string
  gh_map_id :: string
  gh_map_name :: "nat list"
  gh_game_start :: 't
  gh_game_version :: 'f

definition game_header_of ::
  "'f float_ops \<Rightarrow> ('f, 't) runtime \<Rightarrow> raw_game_data \<Rightarrow> val_metadata
     \<Rightarrow> error + ('f, 't) game_header" where
  "game_header_of fo rt raw vm =
     bind_err (dict_get (vm_maps vm) (mapId (matchInfo raw))) (\<lambda>map_name.
     bind_err (int_truediv fo (gameStartMillis (matchInfo raw)) 1000) (\<lambda>seconds.
     bind_err (rt_fromtimestamp rt seconds) (\<lambda>game_start.
     (let start_simple_gm_ver = str_find (gameVersion (matchInfo raw)) 45 + 1;
          end_simple_gm_vr =
            str_find_from (gameVersion (matchInfo raw)) 45 (start_simple_gm_ver + 1)
      in bind_err (rt_float rt
                     (str_slice (gameVersion (matchInfo raw)) start_simple_gm_ver end_simple_gm_vr))
           (\<lambda>game_version_clean.
         Inr \<lparr>gh_game_id = matchId (matchInfo raw), gh_map_id = mapId (matchInfo raw),
              gh_map_name = map_name, gh_game_start = game_start,
              gh_game_version = game_version_clean\<rparr>)))))"

text \<open>The first game of the series metadata on the same map.\<close>

definition match_game_metadata :: "series_metadata \<Rightarrow> nat list \<Rightarrow> error + game_metadata" where
  "match_game_metadata sm map_name =
     (case find (\<lambda>game_metadata. gm_map_name game_metadata = map_name) (sm_games sm) of
        None \<Rightarrow> Inl ValueError
      | Some this_game_metadata \<Rightarrow> Inr this_game_metadata)"

definition make_player_row ::
  "'f float_ops \<Rightarrow> ('f, 't) runtime \<Rightarrow> ('f, 't) game_header \<Rightarrow> series_metadata \<Rightarrow> val_metadata
     \<Rightarrow> game_metadata \<Rightarrow> team_side_refs \<Rightarrow> round_state \<Rightarrow> raw_player
     \<Rightarrow> error + ('f, 't) val_row" where
  "make_player_row fo rt gh sm vm md refs st player =
     bind_err (side_meta md refs (pl_teamId player)) (\<lambda>tmeta.
     bind_err (dict_get (vm_agents vm) (characterId player)) (\<lambda>agent.
     bind_err (team_agg_of (team_preaggregated_stats st) (pl_teamId player)) (\<lambda>tagg.
     bind_err (int_truediv fo (ps_score (pl_stats player)) (roundsPlayed (pl_stats player)))
       (\<lambda>acs.
     bind_err (dict_get (player_preaggregated_stats st) (puuid player)) (\<lambda>pagg.
     bind_err (int_truediv fo (total_damage pagg) (roundsPlayed (pl_stats player))) (\<lambda>dpr.
     bind_err (int_truediv fo (pa_headshots pagg)
                 (pa_headshots pagg + pa_bodyshots pagg + pa_legshots pagg)) (\<lambda>hsr.
     Inr \<lparr>vr_game_id = gh_game_id gh,
          vr_series_id = sm_series_id sm,
          vr_tournament_id = sm_tournament_id sm,
          vr_tournament_name = sm_tournament_name sm,
          vr_map_id = gh_map_id gh,
          vr_map_name = gh_map_name gh,
          vr_game_start = gh_game_start gh,
          vr_game_version = gh_game_version gh,
          vr_game_number = gm_game_number md,
          vr_player_name = gameName player,
          vr_team_id = tm_id tmeta,
          vr_team_name = tm_name tmeta,
          vr_agent_id = characterId player,
          vr_agent_name = agent,
          vr_win = (if tm_winner tmeta then 1 else 0),
          vr_roundsWon = tm_rounds_won tmeta,
          vr_roundsLost = roundsPlayed (pl_stats player) - tm_rounds_won tmeta,
          vr_attackRoundsWon = attackWins tagg,
          vr_attackRoundsLost = attackLosses tagg,
          vr_defenseRoundsWon = defenseWins tagg,
          vr_defenseRoundsLost = defenseLosses tagg,
          vr_kills = Some (ps_kills (pl_stats player)),
          vr_deaths = Some (ps_deaths (pl_stats player)),
          vr_assists = Some (ps_assists (pl_stats player)),
          vr_averageCombatScore = Some (rt_round rt acs 1),
          vr_damagePerRound = Some (rt_round rt dpr 1),
          vr_first_kills = Some (first_kills pagg),
          vr_first_deaths = Some (first_deaths pagg),
          vr_headshot_rate = Some (rt_round rt hsr 3)\<rparr>)))))))"

text \<open>The team row built from a player's row: the player's own figures are blanked.\<close>

definition team_row_of :: "('f, 't) val_row \<Rightarrow> ('f, 't) val_row" where
  "team_row_of r =
     r\<lparr>vr_player_name := [], vr_agent_id := [], vr_agent_name := [],
       vr_kills := None, vr_deaths := None, vr_assists := None,
       vr_averageCombatScore := None, vr_damagePerRound := None,
       vr_first_kills := None, vr_first_deaths := None, vr_headshot_rate := None\<rparr>"

text \<open>
  The state of the loop over the players: the rows so far, the count of non-Neutral
  players, and \<^verbatim>\<open>team_rows_added_map\<close> with its two keys.
\<close>

record ('f, 't) rows_state =
  cleaned_game_data :: "('f, 't) val_row list"
  player_count_found :: nat
  Blue_team_row_added :: bool
  Red_team_row_added :: bool

definition team_row_added :: "('f, 't) rows_state \<Rightarrow> string \<Rightarrow> error + bool" where
  "team_row_added rs s =
     (if s = ''Blue'' then Inr (Blue_team_row_added rs)
      else if s = ''Red'' then Inr (Red_team_row_added rs)
      else Inl KeyError)"

definition set_team_row_added :: "string \<Rightarrow> ('f, 't) rows_state \<Rightarrow> ('f, 't) rows_state" where
  "set_team_row_added s rs =
     (if s = ''Blue'' then rs\<lparr>Blue_team_row_added := True\<rparr>
      else if s = ''Red'' then rs\<lparr>Red_team_row_added := True\<rparr>
      else rs)"

definition player_step ::
  "'f float_ops \<Rightarrow> ('f, 't) runtime \<Rightarrow> ('f, 't) game_header \<Rightarrow> series_metadata \<Rightarrow> val_metadata
     \<Rightarrow> game_metadata \<Rightarrow> team_side_refs \<Rightarrow> round_state \<Rightarrow> raw_player
     \<Rightarrow> ('f, 't) rows_state \<Rightarrow> error + ('f, 't) rows_state" where
  "player_step fo rt gh sm vm md refs st player rs =
     (if pl_teamId player = ''Neutral'' then Inr rs
      else
        bind_err (make_player_row fo rt gh sm vm md refs st player) (\<lambda>player_row.
        (let rs1 = rs\<lparr>player_count_found := player_count_found rs + 1,
                      cleaned_game_data := cleaned_game_data rs @ [player_row]\<rparr>
         in bind_err (team_row_added rs1 (pl_teamId player)) (\<lambda>added.
              if \<not> added
              then Inr (set_team_row_added (pl_teamId player)
                     (rs1\<lparr>cleaned_game_data := cleaned_game_data rs1 @ [team_row_of player_row]\<rparr>))
              else Inr rs1))))"

fun player_loop ::
  "'f float_ops \<Rightarrow> ('f, 't) runtime \<Rightarrow> ('f, 't) game_header \<Rightarrow> series_metadata \<Rightarrow> val_metadata
     \<Rightarrow> game_metadata \<Rightarrow> team_side_refs \<Rightarrow> round_state \<Rightarrow> raw_player list
     \<Rightarrow> ('f, 't) rows_state \<Rightarrow> error + ('f, 't) rows_state" where
  "player_loop fo rt gh sm vm md refs st [] rs = Inr rs"
| "player_loop fo rt gh sm vm md refs st (player # ps) rs =
     bind_err (player_step fo rt gh sm vm md refs st player rs)
       (player_loop fo rt gh sm vm md refs st ps)"

text \<open>The three checks after the loop, and the final sort with its key.\<close>

definition finish_rows :: "('f, 't) rows_state \<Rightarrow> error + ('f, 't) val_row list" where
  "finish_rows rs =
     (if player_count_found rs < 10 then Inl ValueError
      else if \<not> Blue_team_row_added rs then Inl ValueError
      else if \<not> Red_team_row_added rs then Inl ValueError
      else Inr (sort_key (\<lambda>row. (vr_player_name row = [], vr_player_name row, vr_team_name row))
                  (cleaned_game_data rs)))"

text \<open>\<^verbatim>\<open>game_factory\<close> of \<^verbatim>\<open>val_basic_parser.py\<close>.\<close>

definition val_game_factory ::
  "'f float_ops \<Rightarrow> ('f, 't) runtime \<Rightarrow> raw_game_data \<Rightarrow> series_metadata \<Rightarrow> val_metadata
     \<Rightarrow> error + ('f, 't) val_row list" where
  "val_game_factory fo rt raw sm vm =
     bind_err (game_header_of fo rt raw vm) (\<lambda>gh.
     bind_err (match_game_metadata sm (gh_map_name gh)) (\<lambda>this_game_metadata.
     bind_err (map_teams this_game_metadata (rg_teams raw) initial_team_side_refs) (\<lambda>refs.
     bind_err (process_rounds 0 (roundResults raw) initial_round_state) (\<lambda>st.
     bind_err (player_loop fo rt gh sm vm this_game_metadata refs st (players raw)
                 \<lparr>cleaned_game_data = [], player_count_found = 0,
                  Blue_team_row_added = False, Red_team_row_added = False\<rparr>)
       finish_rows))))"

section \<open>Properties\<close>

subsection \<open>Strings\<close>

lemma str_split_not_Nil: "str_split s c \<noteq> []"
  by (induction s) (auto split: list.splits)

lemma hd_str_split: "hd (str_split s c) = takeWhile (\<lambda>x. x \<noteq> c) s"
  by (induction s) (auto split: list.splits simp: str_split_not_Nil)

lemma str_find_eq:
  "str_find s c = (if c \<in> set s then int (length (takeWhile (\<lambda>x. x \<noteq> c) s)) else - 1)"
  by (induction s) (auto simp: Let_def)

lemma early_space_iff:
  "(c \<in> set s \<and> length (takeWhile (\<lambda>x. x \<noteq> c) s) < n) = (c \<in> set (take n s))"
proof (induction s arbitrary: n)
  case Nil
  then show ?case by simp
next
  case (Cons x xs)
  show ?case
  proof (cases n)
    case 0
    then show ?thesis by simp
  next
    case (Suc m)
    with Cons [of m] show ?thesis by auto
  qed
qed

lemma drop_after_first:
  "c \<in> set s \<Longrightarrow>
     drop (Suc (length (takeWhile (\<lambda>x. x \<noteq> c) s))) s = tl (dropWhile (\<lambda>x. x \<noteq> c) s)"
  by (induction s) auto

lemma split_tag_char:
  "split_team_tag_and_player_nickname u s =
     (if 32 \<in> set (take 5 s) \<and> str_isupper u (takeWhile (\<lambda>x. x \<noteq> 32) s)
      then (Some (takeWhile (\<lambda>x. x \<noteq> 32) s), tl (dropWhile (\<lambda>x. x \<noteq> 32) s))
      else (None, s))"
  unfolding split_team_tag_and_player_nickname_def hd_str_split str_from_def Let_def
  using early_space_iff [of 32 s 5] drop_after_first [of 32 s]
  by (auto simp: str_find_eq nat_add_distrib)

lemma ascii_caseD:
  "ascii_case u \<Longrightarrow> c < 128 \<Longrightarrow>
     is_upper u c = (65 \<le> c \<and> c \<le> 90) \<and> is_lower u c = (97 \<le> c \<and> c \<le> 122) \<and> \<not> is_title u c"
  by (simp add: ascii_case_def)

lemma ascii_case_ascii_ucd: "ascii_case ascii_ucd"
  by (simp add: ascii_case_def ascii_ucd_def)

lemma ascii_upper: "ascii_case u \<Longrightarrow> c < 128 \<Longrightarrow> is_upper u c = (65 \<le> c \<and> c \<le> 90)"
  and ascii_lower: "ascii_case u \<Longrightarrow> c < 128 \<Longrightarrow> is_lower u c = (97 \<le> c \<and> c \<le> 122)"
  and ascii_title: "ascii_case u \<Longrightarrow> c < 128 \<Longrightarrow> is_title u c = False"
  by (simp_all add: ascii_case_def)

lemma split_tag_examples:
  assumes "ascii_case u"
  shows "split_team_tag_and_player_nickname u (codepoints ''TSM Bjergsen'')
           = (Some (codepoints ''TSM''), codepoints ''Bjergsen'')"
    and "split_team_tag_and_player_nickname u (codepoints ''Faker'') = (None, codepoints ''Faker'')"
    and "split_team_tag_and_player_nickname u (codepoints ''AB CD'')
           = (Some (codepoints ''AB''), codepoints ''CD'')"
    and "split_team_tag_and_player_nickname u (codepoints ''Tsm Bjergsen'')
           = (None, codepoints ''Tsm Bjergsen'')"
    and "split_team_tag_and_player_nickname u (codepoints ''FNATIC Rekkles'')
           = (None, codepoints ''FNATIC Rekkles'')"
  using assms
  by (simp_all add: split_tag_char codepoints_def ascii_upper ascii_lower ascii_title)

text \<open>
  Beyond ASCII the case of a character is the database's: a name that starts with
  U+00C9 and a space is split when the database calls U+00C9 upper-case, and a
  lower-case U+00E9 in the first word prevents the split.
\<close>

lemma split_tag_non_ascii:
  "is_upper u 201 \<Longrightarrow> split_team_tag_and_player_nickname u [201, 32, 88] = (Some [201], [88])"
  "is_lower u 233 \<Longrightarrow>
     split_team_tag_and_player_nickname u [65, 233, 32, 66] = (None, [65, 233, 32, 66])"
  by (simp_all add: split_tag_char)

text \<open>
  Claim C4. For every string, \<^verbatim>\<open>split_team_tag_and_player_nickname\<close> splits a tag off
  exactly when a space occurs among the first five characters (an index below 5) and the
  text before the first space is upper-case as \<^verbatim>\<open>str.isupper\<close> of the runtime decides
  it, on any Unicode database; the tag is then the text before the first space and
  the name the text after it; otherwise the tag is \<^verbatim>\<open>None\<close> and the name is the whole
  string. With the ASCII letters classified as Unicode does, "TSM Bjergsen" gives the
  tag "TSM" and the name "Bjergsen", "Faker" gives no tag, "AB CD" gives the tag "AB"
  and the name "CD"; a first word with a lower-case letter, or a first space at index
  5 or later, gives no tag.
\<close>

theorem split_team_tag_and_player_nickname_spec:
  "split_team_tag_and_player_nickname u s =
     (if 32 \<in> set (take 5 s) \<and> str_isupper u (takeWhile (\<lambda>x. x \<noteq> 32) s)
      then (Some (takeWhile (\<lambda>x. x \<noteq> 32) s), tl (dropWhile (\<lambda>x. x \<noteq> 32) s))
      else (None, s))
   \<and> (ascii_case u \<longrightarrow>
        split_team_tag_and_player_nickname u (codepoints ''TSM Bjergsen'')
          = (Some (codepoints ''TSM''), codepoints ''Bjergsen'')
      \<and> split_team_tag_and_player_nickname u (codepoints ''Faker'') = (None, codepoints ''Faker'')
      \<and> split_team_tag_and_player_nickname u (codepoints ''AB CD'')
          = (Some (codepoints ''AB''), codepoints ''CD'')
      \<and> split_team_tag_and_player_nickname u (codepoints ''Tsm Bjergsen'')
          = (None, codepoints ''Tsm Bjergsen'')
      \<and> split_team_tag_and_player_nickname u (codepoints ''FNATIC Rekkles'')
          = (None, codepoints ''FNATIC Rekkles''))"
  using split_tag_char [of u s] split_tag_examples [of u] by simp

theorem split_team_tag_and_player_nickname_spec_witness:
  "ascii_case ascii_ucd
   \<and> split_team_tag_and_player_nickname ascii_ucd (codepoints ''TSM Bjergsen'')
       = (Some (codepoints ''TSM''), codepoints ''Bjergsen'')
   \<and> split_team_tag_and_player_nickname ascii_ucd (codepoints ''Faker'')
       = (None, codepoints ''Faker'')
   \<and> split_team_tag_and_player_nickname ascii_ucd (codepoints ''AB CD'')
       = (Some (codepoints ''AB''), codepoints ''CD'')"
  using split_team_tag_and_player_nickname_spec [of ascii_ucd "codepoints ''Faker''"]
    ascii_case_ascii_ucd
  by blast

subsection \<open>Attacking side\<close>

text \<open>
  Claim C3. The attacking side of a round depends on the 1-based round number only: Red
  attacks in rounds 1 to 12, Blue in rounds 13 to 24, and from round 25 on Red attacks in
  the odd rounds and Blue in the even ones; so rounds 1 and 13 differ, and so do rounds
  25 and 26.
\<close>

theorem attackers_by_round_number:
  "(1 \<le> rn \<and> rn \<le> 12 \<longrightarrow> attackers rn = ''Red'')
   \<and> (13 \<le> rn \<and> rn \<le> 24 \<longrightarrow> attackers rn = ''Blue'')
   \<and> (25 \<le> rn \<and> odd rn \<longrightarrow> attackers rn = ''Red'')
   \<and> (25 \<le> rn \<and> even rn \<longrightarrow> attackers rn = ''Blue'')
   \<and> attackers 1 \<noteq> attackers 13
   \<and> attackers 25 \<noteq> attackers 26"
  by (auto simp: attackers_def odd_iff_mod_2_eq_one)

theorem attackers_by_round_number_witness:
  "attackers 7 = ''Red'' \<and> attackers 20 = ''Blue'' \<and> attackers 31 = ''Red''
   \<and> attackers 40 = ''Blue''"
  using attackers_by_round_number [of 7] attackers_by_round_number [of 20]
    attackers_by_round_number [of 31] attackers_by_round_number [of 40]
  by simp

end
